theory Spec2Isabelle
  imports Complex_Main "HOL-Library.Log_Nat"
begin

section \<open>The viewport engine of \<^verbatim>\<open>src/App.tsx\<close>\<close>

text \<open>
  The component \<^verbatim>\<open>App\<close> keeps a zoom factor and an offset for a fixed-size map image
  inside a container element, and reports the image coordinate under the pointer.

  The handlers are modelled twice where it matters. In the first model JavaScript
  numbers are \<^typ>\<open>real\<close> and the arithmetic of the handlers is exact, so rounding
  errors of IEEE doubles, \<^verbatim>\<open>NaN\<close> and the infinities are outside that model. In the
  second model, used for the zoom towards the pointer, every arithmetic operation of
  \<^verbatim>\<open>handleWheel\<close>, \<^verbatim>\<open>clampPosition\<close> and the mount effect is followed by the rounding
  of IEEE binary64 (names ending in \<open>_f64\<close>). A division by a zero scale, which yields
  an infinity or \<^verbatim>\<open>NaN\<close> in JavaScript, is excluded by a hypothesis wherever a
  statement depends on the quotient. \<^verbatim>\<open>Math.min\<close> and \<^verbatim>\<open>Math.max\<close> are \<^const>\<open>min\<close>
  and \<^const>\<open>max\<close>.
\<close>

subsection \<open>Constants (lines 6 to 9)\<close>

definition ORIG_WIDTH :: real where
  "ORIG_WIDTH = 3638"

definition ORIG_HEIGHT :: real where
  "ORIG_HEIGHT = 4855"

definition MIN_SCALE :: real where
  "MIN_SCALE = 0.5"

definition MAX_SCALE :: real where
  "MAX_SCALE = 1.5"

subsection \<open>Data\<close>

text \<open>An object \<^verbatim>\<open>{ x, y }\<close>.\<close>

record point =
  px :: real
  py :: real

text \<open>
  The part of the \<^verbatim>\<open>DOMRect\<close> returned by \<^verbatim>\<open>getBoundingClientRect()\<close> that the
  handlers read.
\<close>

record DOMRect =
  rect_left :: real
  rect_top :: real
  rect_width :: real
  rect_height :: real

text \<open>
  The fields of the events that the handlers read. \<^verbatim>\<open>React.WheelEvent\<close> adds
  \<^verbatim>\<open>deltaY\<close> and \<^verbatim>\<open>React.MouseEvent\<close> adds \<^verbatim>\<open>button\<close> to the client position.
\<close>

record pointer_event =
  clientX :: real
  clientY :: real

record wheel_event = pointer_event +
  deltaY :: real

record mouse_event = pointer_event +
  button :: int

text \<open>
  The state of the component: the four \<^verbatim>\<open>useState\<close> cells (lines 12 to 15) and the
  ref \<^verbatim>\<open>dragStart\<close> (line 16). The ref \<^verbatim>\<open>containerRef\<close> (line 17) belongs to the
  host: every operation takes what \<^verbatim>\<open>containerRef.current\<close> holds as a parameter,
  \<^const>\<open>None\<close> for \<^verbatim>\<open>null\<close> and \<^term>\<open>Some rect\<close> for an element whose bounding
  rectangle is \<^term>\<open>rect\<close>. Every handler runs to completion on the state of the last
  render and its updates are committed before the next event is handled.
\<close>

record app_state =
  scale :: real
  position :: point
  mouseCoords :: point
  isDragging :: bool
  dragStart :: point

definition initialState :: app_state where
  "initialState =
     \<lparr>scale = 0.8,
      position = \<lparr>px = 0, py = 0\<rparr>,
      mouseCoords = \<lparr>px = 0, py = 0\<rparr>,
      isDragging = False,
      dragStart = \<lparr>px = 0, py = 0\<rparr>\<rparr>"

subsection \<open>\<^verbatim>\<open>Math.round\<close>\<close>

text \<open>
  \<^verbatim>\<open>Math.round\<close> returns the nearest integer and rounds a tie towards plus infinity.
\<close>

definition Math_round :: "real \<Rightarrow> real" where
  "Math_round v = of_int \<lfloor>v + 1 / 2\<rfloor>"

subsection \<open>\<^verbatim>\<open>clampPosition\<close> (lines 21 to 47)\<close>

definition clampPosition :: "DOMRect option \<Rightarrow> real \<Rightarrow> real \<Rightarrow> real \<Rightarrow> point" where
  "clampPosition container newX newY currentScale =
     (case container of
        None \<Rightarrow> \<lparr>px = newX, py = newY\<rparr>
      | Some rect \<Rightarrow>
          let vW = rect_width rect;
              vH = rect_height rect;
              mapW = ORIG_WIDTH * currentScale;
              mapH = ORIG_HEIGHT * currentScale;
              minX = vW - mapW;
              maxX = 0;
              minY = vH - mapH;
              maxY = 0;
              minX = (if mapW < vW then (vW - mapW) / 2 else minX);
              maxX = (if mapW < vW then minX else maxX);
              minY = (if mapH < vH then (vH - mapH) / 2 else minY);
              maxY = (if mapH < vH then minY else maxY);
              clampedX = min (max newX minX) maxX;
              clampedY = min (max newY minY) maxY
          in \<lparr>px = clampedX, py = clampedY\<rparr>)"

subsection \<open>\<^verbatim>\<open>handleWheel\<close> (lines 50 to 72)\<close>

definition handleWheel :: "DOMRect option \<Rightarrow> app_state \<Rightarrow> wheel_event \<Rightarrow> app_state" where
  "handleWheel container s e =
     (let delta = (if deltaY e > 0 then - 0.1 else 0.1);
          newScale = min (max (scale s + delta) MIN_SCALE) MAX_SCALE
      in if newScale = scale s then s
         else case container of
           None \<Rightarrow> s
         | Some rect \<Rightarrow>
             let mouseX = clientX e - rect_left rect;
                 mouseY = clientY e - rect_top rect;
                 pointX = (mouseX - px (position s)) / scale s;
                 pointY = (mouseY - py (position s)) / scale s;
                 nextX = mouseX - pointX * newScale;
                 nextY = mouseY - pointY * newScale;
                 clamped = clampPosition container nextX nextY newScale
             in s\<lparr>scale := newScale, position := clamped\<rparr>)"

subsection \<open>\<^verbatim>\<open>handleMouseDown\<close>, \<^verbatim>\<open>handleMouseMove\<close>, \<^verbatim>\<open>handleMouseUp\<close> (lines 75 to 111)\<close>

definition handleMouseDown :: "app_state \<Rightarrow> mouse_event \<Rightarrow> app_state" where
  "handleMouseDown s e =
     (if button e \<noteq> 0 then s
      else s\<lparr>isDragging := True,
             dragStart := \<lparr>px = clientX e - px (position s),
                           py = clientY e - py (position s)\<rparr>\<rparr>)"

definition handleMouseMove :: "DOMRect option \<Rightarrow> app_state \<Rightarrow> mouse_event \<Rightarrow> app_state" where
  "handleMouseMove container s e =
     (case container of
        None \<Rightarrow> s
      | Some rect \<Rightarrow>
          let mouseX = clientX e - rect_left rect;
              mouseY = clientY e - rect_top rect;
              imgX = (mouseX - px (position s)) / scale s;
              imgY = (mouseY - py (position s)) / scale s;
              displayX = Math_round imgX;
              displayY = Math_round (ORIG_HEIGHT - imgY);
              s1 = s\<lparr>mouseCoords :=
                       \<lparr>px = min (max displayX 0) ORIG_WIDTH,
                        py = min (max displayY 0) ORIG_HEIGHT\<rparr>\<rparr>
          in if \<not> isDragging s then s1
             else
               let nextX = clientX e - px (dragStart s);
                   nextY = clientY e - py (dragStart s)
               in s1\<lparr>position := clampPosition container nextX nextY (scale s)\<rparr>)"


subsection \<open>The effect run on mount (lines 114 to 123) and \<^verbatim>\<open>onLoad\<close> (lines 160 to 162)\<close>

definition mountEffect :: "DOMRect option \<Rightarrow> app_state \<Rightarrow> app_state" where
  "mountEffect container s =
     (case container of
        None \<Rightarrow> s
      | Some rect \<Rightarrow>
          let vW = rect_width rect;
              vH = rect_height rect;
              initialScale = 0.8;
              initialX = (vW - ORIG_WIDTH * initialScale) / 2;
              initialY = (vH - ORIG_HEIGHT * initialScale) / 2
          in s\<lparr>scale := initialScale,
               position := clampPosition container initialX initialY initialScale\<rparr>)"

definition onLoad :: "DOMRect option \<Rightarrow> app_state \<Rightarrow> app_state" where
  "onLoad container s =
     s\<lparr>position := clampPosition container (px (position s)) (py (position s)) (scale s)\<rparr>"

subsection \<open>Runs of the component\<close>




subsection \<open>The handlers of the zoom in IEEE double arithmetic\<close>

text \<open>
  Rounding to the nearest integer with ties to the even one, the exponent \<open>e\<close> of a
  nonzero number \<open>x\<close> (the integer with \<open>2\<^sup>e \<le> |x| < 2\<^sup>e\<^sup>+\<^sup>1\<close>), and the rounding of
  a real number to the nearest number with a significand of 53 bits, ties to even. For
  magnitudes from \<open>2\<^sup>-\<^sup>1\<^sup>0\<^sup>2\<^sup>2\<close> up to the largest double this is the rounding of
  IEEE binary64; the exponent is not bounded here, so overflow and subnormal numbers
  are outside the model.
\<close>

definition round_even :: "real \<Rightarrow> int" where
  "round_even y =
     (let f = \<lfloor>y\<rfloor>; d = y - of_int f
      in if d < 1 / 2 then f else if 1 / 2 < d then f + 1 else if even f then f else f + 1)"

definition expo :: "real \<Rightarrow> int" where
  "expo x =
     (if 1 \<le> \<bar>x\<bar> then int (floorlog 2 (nat \<lfloor>\<bar>x\<bar>\<rfloor>)) - 1
      else - int (floorlog 2 (nat (\<lceil>1 / \<bar>x\<bar>\<rceil> - 1))))"

definition f64 :: "real \<Rightarrow> real" where
  "f64 x =
     (if x = 0 then 0
      else let ulp = 2 powi (expo x - 52) in of_int (round_even (x / ulp)) * ulp)"

text \<open>
  \<^verbatim>\<open>clampPosition\<close>, \<^verbatim>\<open>handleWheel\<close> and the mount effect with every arithmetic
  operation rounded, and the state of the first render with the double nearest to 0.8
  as its scale. The constants 0.5, 1.5, 3638 and 4855 are doubles; \<^verbatim>\<open>-0.1\<close> is the
  negation of the double nearest to 0.1.
\<close>

definition clampPosition_f64 :: "DOMRect option \<Rightarrow> real \<Rightarrow> real \<Rightarrow> real \<Rightarrow> point" where
  "clampPosition_f64 container newX newY currentScale =
     (case container of
        None \<Rightarrow> \<lparr>px = newX, py = newY\<rparr>
      | Some rect \<Rightarrow>
          let vW = rect_width rect;
              vH = rect_height rect;
              mapW = f64 (ORIG_WIDTH * currentScale);
              mapH = f64 (ORIG_HEIGHT * currentScale);
              minX = f64 (vW - mapW);
              maxX = 0;
              minY = f64 (vH - mapH);
              maxY = 0;
              minX = (if mapW < vW then f64 (f64 (vW - mapW) / 2) else minX);
              maxX = (if mapW < vW then minX else maxX);
              minY = (if mapH < vH then f64 (f64 (vH - mapH) / 2) else minY);
              maxY = (if mapH < vH then minY else maxY);
              clampedX = min (max newX minX) maxX;
              clampedY = min (max newY minY) maxY
          in \<lparr>px = clampedX, py = clampedY\<rparr>)"

definition handleWheel_f64 :: "DOMRect option \<Rightarrow> app_state \<Rightarrow> wheel_event \<Rightarrow> app_state" where
  "handleWheel_f64 container s e =
     (let delta = (if deltaY e > 0 then - f64 0.1 else f64 0.1);
          newScale = min (max (f64 (scale s + delta)) MIN_SCALE) MAX_SCALE
      in if newScale = scale s then s
         else case container of
           None \<Rightarrow> s
         | Some rect \<Rightarrow>
             let mouseX = f64 (clientX e - rect_left rect);
                 mouseY = f64 (clientY e - rect_top rect);
                 pointX = f64 (f64 (mouseX - px (position s)) / scale s);
                 pointY = f64 (f64 (mouseY - py (position s)) / scale s);
                 nextX = f64 (mouseX - f64 (pointX * newScale));
                 nextY = f64 (mouseY - f64 (pointY * newScale));
                 clamped = clampPosition_f64 container nextX nextY newScale
             in s\<lparr>scale := newScale, position := clamped\<rparr>)"

definition mountEffect_f64 :: "DOMRect option \<Rightarrow> app_state \<Rightarrow> app_state" where
  "mountEffect_f64 container s =
     (case container of
        None \<Rightarrow> s
      | Some rect \<Rightarrow>
          let vW = rect_width rect;
              vH = rect_height rect;
              initialScale = f64 0.8;
              initialX = f64 (f64 (vW - f64 (ORIG_WIDTH * initialScale)) / 2);
              initialY = f64 (f64 (vH - f64 (ORIG_HEIGHT * initialScale)) / 2)
          in s\<lparr>scale := initialScale,
               position := clampPosition_f64 container initialX initialY initialScale\<rparr>)"

definition initialState_f64 :: app_state where
  "initialState_f64 = initialState\<lparr>scale := f64 0.8\<rparr>"

text \<open>
  The values of \<^verbatim>\<open>newScale\<close>, of \<^verbatim>\<open>pointX\<close> and \<^verbatim>\<open>pointY\<close> (lines 63 and 64) and of
  \<^verbatim>\<open>nextX\<close> and \<^verbatim>\<open>nextY\<close> (lines 66 and 67) as \<^const>\<open>handleWheel_f64\<close> computes them.
\<close>

definition wheel_newScale_f64 :: "app_state \<Rightarrow> wheel_event \<Rightarrow> real" where
  "wheel_newScale_f64 s e =
     min (max (f64 (scale s + (if deltaY e > 0 then - f64 0.1 else f64 0.1))) MIN_SCALE) MAX_SCALE"

definition pointUnder_f64 :: "DOMRect \<Rightarrow> app_state \<Rightarrow> 'a pointer_event_scheme \<Rightarrow> point" where
  "pointUnder_f64 rect s e =
     \<lparr>px = f64 (f64 (f64 (clientX e - rect_left rect) - px (position s)) / scale s),
      py = f64 (f64 (f64 (clientY e - rect_top rect) - py (position s)) / scale s)\<rparr>"

definition wheel_next_f64 :: "DOMRect \<Rightarrow> app_state \<Rightarrow> wheel_event \<Rightarrow> point" where
  "wheel_next_f64 rect s e =
     \<lparr>px = f64 (f64 (clientX e - rect_left rect)
             - f64 (px (pointUnder_f64 rect s e) * wheel_newScale_f64 s e)),
      py = f64 (f64 (clientY e - rect_top rect)
             - f64 (py (pointUnder_f64 rect s e) * wheel_newScale_f64 s e))\<rparr>"

subsection \<open>Quantities of the handlers and of the specification\<close>

text \<open>The value of \<^verbatim>\<open>newScale\<close> that \<^verbatim>\<open>handleWheel\<close> computes at lines 52 and 53.\<close>

definition wheel_newScale :: "app_state \<Rightarrow> wheel_event \<Rightarrow> real" where
  "wheel_newScale s e =
     min (max (scale s + (if deltaY e > 0 then - 0.1 else 0.1)) MIN_SCALE) MAX_SCALE"

text \<open>
  The position of the pointer relative to the container (\<^verbatim>\<open>mouseX\<close>, \<^verbatim>\<open>mouseY\<close> at
  lines 60, 61, 86 and 87), and the image-space point under it for a given offset and
  scale (lines 63, 64, 89 and 90).
\<close>

definition localPos :: "DOMRect \<Rightarrow> 'a pointer_event_scheme \<Rightarrow> point" where
  "localPos rect e = \<lparr>px = clientX e - rect_left rect, py = clientY e - rect_top rect\<rparr>"

definition imagePoint :: "point \<Rightarrow> point \<Rightarrow> real \<Rightarrow> point" where
  "imagePoint p offset sc = \<lparr>px = (px p - px offset) / sc, py = (py p - py offset) / sc\<rparr>"

text \<open>
  The target offset of a zoom before clamping: the pointer position minus the image
  point scaled by the new scale.
\<close>

definition zoomTarget :: "point \<Rightarrow> point \<Rightarrow> real \<Rightarrow> point" where
  "zoomTarget p ip newScale = \<lparr>px = px p - px ip * newScale, py = py p - py ip * newScale\<rparr>"

text \<open>
  The image-space point under the pointer in a state (\<^verbatim>\<open>pointX\<close>, \<^verbatim>\<open>pointY\<close> of
  \<^verbatim>\<open>handleWheel\<close>; \<^verbatim>\<open>imgX\<close>, \<^verbatim>\<open>imgY\<close> of \<^verbatim>\<open>handleMouseMove\<close>), and the candidate
  offset \<^verbatim>\<open>nextX\<close>, \<^verbatim>\<open>nextY\<close> that \<^verbatim>\<open>handleWheel\<close> passes to the clamp (lines 66
  and 67).
\<close>

definition pointUnder :: "DOMRect \<Rightarrow> app_state \<Rightarrow> 'a pointer_event_scheme \<Rightarrow> point" where
  "pointUnder rect s e = imagePoint (localPos rect e) (position s) (scale s)"

definition wheel_next :: "DOMRect \<Rightarrow> app_state \<Rightarrow> wheel_event \<Rightarrow> point" where
  "wheel_next rect s e =
     zoomTarget (localPos rect e) (pointUnder rect s e) (wheel_newScale s e)"

text \<open>
  The candidate offset that \<^verbatim>\<open>handleMouseMove\<close> passes to the clamp while dragging
  (lines 103 and 104).
\<close>

definition drag_next :: "app_state \<Rightarrow> 'a pointer_event_scheme \<Rightarrow> point" where
  "drag_next s e = \<lparr>px = clientX e - px (dragStart s), py = clientY e - py (dragStart s)\<rparr>"

text \<open>
  The clamp of the specification, for one axis: a content at least as large as the view
  has its offset clamped into the range from \<open>viewSize - contentSize\<close> to \<open>0\<close>, and a
  smaller content is centred.
\<close>

definition clamp_into :: "real \<Rightarrow> real \<Rightarrow> real \<Rightarrow> real" where
  "clamp_into lo hi v = (if v < lo then lo else if hi < v then hi else v)"

definition spec_clamp_axis :: "real \<Rightarrow> real \<Rightarrow> real \<Rightarrow> real \<Rightarrow> real" where
  "spec_clamp_axis imageSize viewSize sc candidate =
     (let contentSize = imageSize * sc
      in if contentSize \<ge> viewSize then clamp_into (viewSize - contentSize) 0 candidate
         else (viewSize - contentSize) / 2)"

text \<open>
  The coordinate report of the specification: the rounded image coordinate clamped to
  the image, with the vertical axis flipped.
\<close>

definition spec_report :: "point \<Rightarrow> point \<Rightarrow> real \<Rightarrow> point" where
  "spec_report p offset sc =
     \<lparr>px = clamp_into 0 ORIG_WIDTH (Math_round ((px p - px offset) / sc)),
      py = clamp_into 0 ORIG_HEIGHT (Math_round (ORIG_HEIGHT - (py p - py offset) / sc))\<rparr>"





subsection \<open>Concrete inputs\<close>

text \<open>A container of 1000 by 800 pixels at the origin of the page, and one of size zero.\<close>

definition surfaceA :: DOMRect where
  "surfaceA = \<lparr>rect_left = 0, rect_top = 0, rect_width = 1000, rect_height = 800\<rparr>"

definition surfaceZero :: DOMRect where
  "surfaceZero = \<lparr>rect_left = 0, rect_top = 0, rect_width = 0, rect_height = 0\<rparr>"

text \<open>The state with scale 0.8 and the image centred in \<^const>\<open>surfaceA\<close>.\<close>

definition stateA :: app_state where
  "stateA =
     \<lparr>scale = 0.8,
      position = \<lparr>px = - 955.2, py = - 1542\<rparr>,
      mouseCoords = \<lparr>px = 0, py = 0\<rparr>,
      isDragging = False,
      dragStart = \<lparr>px = 0, py = 0\<rparr>\<rparr>"

text \<open>
  A drag in \<^const>\<open>surfaceA\<close>: the primary button goes down at (500, 400) in the mounted
  state and the pointer moves to (520, 380).
\<close>

definition stateDown :: app_state where
  "stateDown =
     handleMouseDown (mountEffect (Some surfaceA) initialState)
       \<lparr>clientX = 500, clientY = 400, button = 0\<rparr>"

definition stateDragged :: app_state where
  "stateDragged =
     handleMouseMove (Some surfaceA) stateDown \<lparr>clientX = 520, clientY = 380, button = 0\<rparr>"

text \<open>The state of the first render with the offset that centres the image in \<^const>\<open>surfaceZero\<close>.\<close>

definition stateZero :: app_state where
  "stateZero = initialState\<lparr>position := \<lparr>px = - 1455.2, py = - 1942\<rparr>\<rparr>"


text \<open>
  In double arithmetic: the state after the mount effect in \<^const>\<open>surfaceA\<close>, and the
  state after zooming in once with the pointer at (0, 0).
\<close>

definition stateA_f64 :: app_state where
  "stateA_f64 =
     \<lparr>scale = 3602879701896397 / 4503599627370496,
      position = \<lparr>px = - (4201014027406541 / 4398046511104), py = - 1542\<rparr>,
      mouseCoords = \<lparr>px = 0, py = 0\<rparr>,
      isDragging = False,
      dragStart = \<lparr>px = 0, py = 0\<rparr>\<rparr>"

definition stateZoomed_f64 :: app_state where
  "stateZoomed_f64 =
     stateA_f64\<lparr>scale := 8106479329266893 / 9007199254740992,
       position := \<lparr>px = - (4726140780832359 / 4398046511104), py = - (6939 / 4)\<rparr>\<rparr>"

definition mouseAt :: "real \<Rightarrow> real \<Rightarrow> int \<Rightarrow> mouse_event" where
  "mouseAt cx cy b = \<lparr>clientX = cx, clientY = cy, button = b\<rparr>"

definition wheelAt :: "real \<Rightarrow> real \<Rightarrow> real \<Rightarrow> wheel_event" where
  "wheelAt cx cy dy = \<lparr>clientX = cx, clientY = cy, deltaY = dy\<rparr>"

section \<open>Properties\<close>

subsection \<open>The clamp\<close>

lemma point_eqI: "px p = px q \<Longrightarrow> py p = py q \<Longrightarrow> (p::point) = q"
  by simp

lemma clampPosition_None: "clampPosition None a b c = \<lparr>px = a, py = b\<rparr>"
  by (simp add: clampPosition_def)

lemma clampPosition_Some_px:
  "px (clampPosition (Some rect) a b c) =
     (if ORIG_WIDTH * c < rect_width rect then (rect_width rect - ORIG_WIDTH * c) / 2
      else min (max a (rect_width rect - ORIG_WIDTH * c)) 0)"
  by (simp add: clampPosition_def Let_def)

lemma clampPosition_Some_py:
  "py (clampPosition (Some rect) a b c) =
     (if ORIG_HEIGHT * c < rect_height rect then (rect_height rect - ORIG_HEIGHT * c) / 2
      else min (max b (rect_height rect - ORIG_HEIGHT * c)) 0)"
  by (simp add: clampPosition_def Let_def)

lemma min_max_clamp_into: "lo \<le> hi \<Longrightarrow> min (max v lo) hi = clamp_into lo hi v"
  by (simp add: clamp_into_def min_def max_def)


lemma clampPosition_spec:
  "clampPosition (Some rect) newX newY sc =
     \<lparr>px = spec_clamp_axis ORIG_WIDTH (rect_width rect) sc newX,
      py = spec_clamp_axis ORIG_HEIGHT (rect_height rect) sc newY\<rparr>"
proof (rule point_eqI)
  show "px (clampPosition (Some rect) newX newY sc) =
    px \<lparr>px = spec_clamp_axis ORIG_WIDTH (rect_width rect) sc newX,
        py = spec_clamp_axis ORIG_HEIGHT (rect_height rect) sc newY\<rparr>"
    by (simp add: clampPosition_Some_px spec_clamp_axis_def Let_def min_max_clamp_into)
  show "py (clampPosition (Some rect) newX newY sc) =
    py \<lparr>px = spec_clamp_axis ORIG_WIDTH (rect_width rect) sc newX,
        py = spec_clamp_axis ORIG_HEIGHT (rect_height rect) sc newY\<rparr>"
    by (simp add: clampPosition_Some_py spec_clamp_axis_def Let_def min_max_clamp_into)
qed

text \<open>
  Claim C2. For a container with a bounding rectangle, \<^const>\<open>clampPosition\<close> treats the
  two axes separately and alike: on an axis where the scaled image is at least as large
  as the container, the candidate is clamped into the range from the container size
  minus the scaled image size to 0; on an axis where it is smaller, the result is half
  of that difference, whatever the candidate. The image sizes are the constants of the
  component. The function reads no state and returns a value only.
\<close>

theorem clampPosition_per_axis:
  "clampPosition (Some rect) newX newY sc =
     \<lparr>px = spec_clamp_axis ORIG_WIDTH (rect_width rect) sc newX,
      py = spec_clamp_axis ORIG_HEIGHT (rect_height rect) sc newY\<rparr>"
  by (rule clampPosition_spec)

subsection \<open>Zoom\<close>

lemma wheel_newScale_bounds: "MIN_SCALE \<le> wheel_newScale s e \<and> wheel_newScale s e \<le> MAX_SCALE"
  by (simp add: wheel_newScale_def MIN_SCALE_def MAX_SCALE_def min_def max_def)

lemma wheel_newScale_pos: "0 < wheel_newScale s e"
  using wheel_newScale_bounds [of s e] by (simp add: MIN_SCALE_def)

lemma handleWheel_None: "handleWheel None s e = s"
  by (simp add: handleWheel_def Let_def)

lemma handleWheel_Some:
  "handleWheel (Some rect) s e =
     (if wheel_newScale s e = scale s then s
      else s\<lparr>scale := wheel_newScale s e,
             position := clampPosition (Some rect) (px (wheel_next rect s e))
                           (py (wheel_next rect s e)) (wheel_newScale s e)\<rparr>)"
  unfolding handleWheel_def wheel_newScale_def wheel_next_def pointUnder_def
    zoomTarget_def imagePoint_def localPos_def Let_def
  by (simp only: option.case point.select_convs)

lemma handleWheel_noop: "wheel_newScale s e = scale s \<Longrightarrow> handleWheel container s e = s"
  by (cases container) (simp_all add: handleWheel_None handleWheel_Some)

lemma wheel_next_same_scale:
  assumes "scale s \<noteq> 0" and "wheel_newScale s e = scale s"
  shows "wheel_next rect s e = position s"
  using assms
  by (simp add: wheel_next_def pointUnder_def zoomTarget_def imagePoint_def localPos_def)

lemma pointUnder_target:
  assumes "sc \<noteq> 0"
  shows "imagePoint p (zoomTarget p ip sc) sc = ip"
  using assms by (simp add: imagePoint_def zoomTarget_def)

lemma stateA_mounted: "mountEffect (Some surfaceA) initialState = stateA"
  by (simp add: mountEffect_def surfaceA_def initialState_def stateA_def Let_def
      clampPosition_def ORIG_WIDTH_def ORIG_HEIGHT_def)

text \<open>
  In exact arithmetic a zoom whose candidate offset the clamp leaves as it is keeps the
  image-space point under the pointer: the committed offset is the pointer position
  minus the image point times the new scale, and the image point computed from the
  pointer position in the new state is the one computed in the old state.
\<close>

lemma zoom_to_cursor_exact:
  assumes "scale s \<noteq> 0"
    and "clampPosition (Some rect) (px (wheel_next rect s e)) (py (wheel_next rect s e))
           (wheel_newScale s e) = wheel_next rect s e"
  shows "position (handleWheel (Some rect) s e) = wheel_next rect s e \<and>
         pointUnder rect (handleWheel (Some rect) s e) e = pointUnder rect s e"
proof (cases "wheel_newScale s e = scale s")
  case True
  then have "handleWheel (Some rect) s e = s"
    by (rule handleWheel_noop)
  with True assms(1) show ?thesis
    by (simp add: wheel_next_same_scale)
next
  case False
  have nz: "wheel_newScale s e \<noteq> 0"
    using wheel_newScale_pos [of s e] by simp
  from False assms(2) have pos: "position (handleWheel (Some rect) s e) = wheel_next rect s e"
    by (simp add: handleWheel_Some)
  from False have sc: "scale (handleWheel (Some rect) s e) = wheel_newScale s e"
    by (simp add: handleWheel_Some)
  have "pointUnder rect (handleWheel (Some rect) s e) e =
          imagePoint (localPos rect e) (wheel_next rect s e) (wheel_newScale s e)"
    by (simp add: pointUnder_def pos sc)
  also have "\<dots> = pointUnder rect s e"
    unfolding wheel_next_def by (rule pointUnder_target [OF nz])
  finally show ?thesis using pos by simp
qed

subsection \<open>Zoom in double arithmetic\<close>

text \<open>The rounding moves a number by at most the fraction \<open>2\<^sup>-\<^sup>5\<^sup>3\<close> of its magnitude.\<close>

lemma round_even_error: "\<bar>of_int (round_even y) - y\<bar> \<le> 1 / 2"
  unfolding round_even_def Let_def by (auto simp: abs_if) linarith+

lemma real_pow2_bounds:
  fixes N k :: nat
  assumes "2 ^ (k - 1) \<le> N" and "N < 2 ^ k"
  shows "(2::real) ^ (k - 1) \<le> real N" and "real N + 1 \<le> 2 ^ k"
proof -
  have "real (2 ^ (k - 1)) \<le> real N"
    using assms(1) by (rule of_nat_mono)
  then show "(2::real) ^ (k - 1) \<le> real N"
    by simp
  from assms(2) have "Suc N \<le> 2 ^ k"
    by simp
  then have "real (Suc N) \<le> real (2 ^ k)"
    by (rule of_nat_mono)
  then show "real N + 1 \<le> 2 ^ k"
    by simp
qed

lemma expo_bounds:
  assumes "x \<noteq> 0"
  shows "2 powi expo x \<le> \<bar>x\<bar>" and "\<bar>x\<bar> < 2 powi (expo x + 1)"
proof -
  have "2 powi expo x \<le> \<bar>x\<bar> \<and> \<bar>x\<bar> < 2 powi (expo x + 1)"
  proof (cases "1 \<le> \<bar>x\<bar>")
    case True
    define N where "N = nat \<lfloor>\<bar>x\<bar>\<rfloor>"
    define k where "k = floorlog 2 N"
    from True have N: "0 < N"
      by (simp add: N_def)
    from floorlog_bounds [OF N, of 2] have b: "2 ^ (k - 1) \<le> N" "N < 2 ^ k"
      by (simp_all add: k_def)
    from N have k: "0 < k"
      by (simp add: k_def floorlog_def)
    have e: "expo x = int (k - 1)"
      using True k by (simp add: expo_def N_def k_def)
    have lo: "real N \<le> \<bar>x\<bar>" and hi: "\<bar>x\<bar> < real N + 1"
      using True by (simp_all add: N_def)
    have "(2::real) ^ (k - 1) \<le> real N"
      using b by (rule real_pow2_bounds)
    from this lo have "(2::real) ^ (k - 1) \<le> \<bar>x\<bar>"
      by (rule order_trans)
    then have l: "(2::real) powi expo x \<le> \<bar>x\<bar>"
      by (simp add: e)
    have "real N + 1 \<le> 2 ^ k"
      using b by (rule real_pow2_bounds)
    with hi have "\<bar>x\<bar> < 2 ^ k"
      by (rule less_le_trans)
    moreover have "expo x + 1 = int k"
      using k by (simp add: e)
    ultimately have "\<bar>x\<bar> < 2 powi (expo x + 1)"
      by simp
    with l show ?thesis by simp
  next
    case False
    define y where "y = 1 / \<bar>x\<bar>"
    define M where "M = nat (\<lceil>y\<rceil> - 1)"
    define k where "k = floorlog 2 M"
    from False assms have y1: "1 < y"
      by (simp add: y_def)
    then have c: "2 \<le> \<lceil>y\<rceil>"
      by linarith
    then have M: "0 < M"
      by (simp add: M_def)
    from floorlog_bounds [OF M, of 2] have b: "2 ^ (k - 1) \<le> M" "M < 2 ^ k"
      by (simp_all add: k_def)
    have e: "expo x = - int k"
      using False by (simp add: expo_def M_def k_def y_def)
    have Mr: "real M = of_int \<lceil>y\<rceil> - 1"
      using c by (simp add: M_def)
    have lo: "real M < y" and hi: "y \<le> real M + 1"
      unfolding Mr by linarith+
    have p1: "(2::real) ^ (k - 1) \<le> real M"
      using b by (rule real_pow2_bounds)
    have p2: "real M + 1 \<le> 2 ^ k"
      using b by (rule real_pow2_bounds)
    from M have k: "0 < k"
      by (simp add: k_def floorlog_def)
    have xy: "\<bar>x\<bar> = 1 / y"
      by (simp add: y_def)
    from hi p2 have "y \<le> 2 ^ k" by (rule order_trans)
    then have "1 / 2 ^ k \<le> 1 / y"
      using y1 by (simp add: frac_le)
    then have l: "(2::real) powi expo x \<le> \<bar>x\<bar>"
      by (simp add: e xy power_int_minus_divide)
    from p1 lo have "(2::real) ^ (k - 1) < y" by (rule le_less_trans)
    then have "1 / y < 1 / 2 ^ (k - 1)"
      by (simp add: frac_less2)
    moreover have "expo x + 1 = - int (k - 1)"
      using k by (simp add: e)
    ultimately have "\<bar>x\<bar> < 2 powi (expo x + 1)"
      by (simp add: xy power_int_minus_divide)
    with l show ?thesis by simp
  qed
  then show "2 powi expo x \<le> \<bar>x\<bar>" and "\<bar>x\<bar> < 2 powi (expo x + 1)"
    by simp_all
qed

lemma f64_error: "\<bar>f64 x - x\<bar> \<le> \<bar>x\<bar> / 2 ^ 53"
proof (cases "x = 0")
  case True
  then show ?thesis by (simp add: f64_def)
next
  case False
  define ulp :: real where "ulp = 2 powi (expo x - 52)"
  have pos: "0 < ulp"
    by (simp add: ulp_def)
  have u: "ulp = 2 powi expo x / 2 ^ 52"
    by (simp add: ulp_def power_int_diff)
  have "f64 x - x = (of_int (round_even (x / ulp)) - x / ulp) * ulp"
    using False pos by (simp add: f64_def ulp_def [symmetric] Let_def algebra_simps)
  then have "\<bar>f64 x - x\<bar> = \<bar>of_int (round_even (x / ulp)) - x / ulp\<bar> * ulp"
    using pos by (simp add: abs_mult)
  also have "\<dots> \<le> 1 / 2 * ulp"
    using pos round_even_error [of "x / ulp"] by (intro mult_right_mono) simp_all
  also have "\<dots> = 2 powi expo x / 2 ^ 53"
    by (simp add: u)
  also have "\<dots> \<le> \<bar>x\<bar> / 2 ^ 53"
    using expo_bounds(1) [OF False] by (simp add: divide_right_mono)
  finally show ?thesis .
qed

text \<open>The rounding of a number whose exponent is known.\<close>

lemma pow2_strict_mono:
  assumes "(2::real) powi a < 2 powi b"
  shows "a < b"
proof (rule ccontr)
  assume "\<not> a < b"
  then have "b \<le> a" by simp
  then have "(2::real) powi b \<le> 2 powi a"
    by (intro power_int_increasing) simp_all
  with assms show False by simp
qed

lemma expo_eqI:
  assumes "2 powi e \<le> \<bar>x\<bar>" and "\<bar>x\<bar> < 2 powi (e + 1)"
  shows "expo x = e"
proof -
  have "(0::real) < 2 powi e"
    by simp
  from this assms(1) have "0 < \<bar>x\<bar>"
    by (rule less_le_trans)
  then have nz: "x \<noteq> 0"
    by simp
  from expo_bounds(1) [OF nz] assms(2) have "(2::real) powi expo x < 2 powi (e + 1)"
    by (rule le_less_trans)
  then have a: "expo x < e + 1"
    by (rule pow2_strict_mono)
  from assms(1) expo_bounds(2) [OF nz] have "(2::real) powi e < 2 powi (expo x + 1)"
    by (rule le_less_trans)
  then have "e < expo x + 1"
    by (rule pow2_strict_mono)
  with a show ?thesis by simp
qed

lemma f64_ge1:
  assumes "2 ^ k \<le> \<bar>x\<bar>" and "\<bar>x\<bar> < 2 * 2 ^ k" and "k \<le> 52"
  shows "f64 x = of_int (round_even (x * 2 ^ (52 - k))) / 2 ^ (52 - k)"
proof -
  have e: "expo x = int k"
    using assms(1,2) by (intro expo_eqI) (simp_all add: power_int_add)
  have idx: "int k - 52 = - int (52 - k)"
    using assms(3) by simp
  have "(2::real) powi (int k - 52) = 2 powi (- int (52 - k))"
    by (simp only: idx)
  also have "\<dots> = 1 / 2 ^ (52 - k)"
    by (simp only: power_int_minus_divide power_int_of_nat)
  finally have ulp: "(2::real) powi (int k - 52) = 1 / 2 ^ (52 - k)" .
  have "(0::real) < 2 ^ k" by simp
  from this assms(1) have "0 < \<bar>x\<bar>" by (rule less_le_trans)
  then have nz: "x \<noteq> 0" by simp
  show ?thesis
    unfolding f64_def Let_def e ulp using nz by simp
qed

lemma f64_lt1:
  assumes "1 / 2 ^ k \<le> \<bar>x\<bar>" and "\<bar>x\<bar> < 2 / 2 ^ k"
  shows "f64 x = of_int (round_even (x * 2 ^ (52 + k))) / 2 ^ (52 + k)"
proof -
  have e: "expo x = - int k"
    using assms by (intro expo_eqI) (simp_all add: power_int_diff power_int_minus_divide)
  have idx: "- int k - 52 = - int (52 + k)"
    by simp
  have "(2::real) powi (- int k - 52) = 2 powi (- int (52 + k))"
    by (simp only: idx)
  also have "\<dots> = 1 / 2 ^ (52 + k)"
    by (simp only: power_int_minus_divide power_int_of_nat)
  finally have ulp: "(2::real) powi (- int k - 52) = 1 / 2 ^ (52 + k)" .
  have "(0::real) < 1 / 2 ^ k" by simp
  from this assms(1) have "0 < \<bar>x\<bar>" by (rule less_le_trans)
  then have nz: "x \<noteq> 0" by simp
  show ?thesis
    unfolding f64_def Let_def e ulp using nz by simp
qed

lemma f64_zero: "f64 0 = 0"
  by (simp add: f64_def)

lemmas f64_evals =
  f64_lt1 [of 4] f64_lt1 [of 3] f64_lt1 [of 2] f64_lt1 [of 1]
  f64_ge1 [of 0] f64_ge1 [of 1] f64_ge1 [of 2] f64_ge1 [of 3] f64_ge1 [of 4] f64_ge1 [of 5]
  f64_ge1 [of 6] f64_ge1 [of 7] f64_ge1 [of 8] f64_ge1 [of 9] f64_ge1 [of 10] f64_ge1 [of 11]
  f64_ge1 [of 12]

text \<open>
  The roundings that occur when the component is mounted in \<^const>\<open>surfaceA\<close> and the
  wheel is then turned once towards zooming in with the pointer at (0, 0).
\<close>

lemma v_scale0: "f64 (4 / 5) = 3602879701896397 / 4503599627370496"
  by (simp add: f64_evals round_even_def)

lemma v_mapW0: "f64 (6553638177749546143 / 2251799813685248) = 6400037282958541 / 2199023255552"
  by (simp add: f64_evals round_even_def)

lemma v_mapH0: "f64 (17491980952707007435 / 4503599627370496) = 3884"
  by (simp add: f64_evals round_even_def)

lemma v_minX0: "f64 (- (4201014027406541 / 2199023255552)) = - (4201014027406541 / 2199023255552)"
  by (simp add: f64_evals round_even_def)

lemma v_minY0: "f64 (- 3084) = - 3084"
  by (simp add: f64_evals round_even_def)

lemma v_initX: "f64 (- (4201014027406541 / 4398046511104)) = - (4201014027406541 / 4398046511104)"
  by (simp add: f64_evals round_even_def)

lemma v_initY: "f64 (- 1542) = - 1542"
  by (simp add: f64_evals round_even_def)

lemma v_delta: "f64 (1 / 10) = 3602879701896397 / 36028797018963968"
  by (simp add: f64_evals round_even_def)

lemma v_newScale: "f64 (32425917317067573 / 36028797018963968) = 8106479329266893 / 9007199254740992"
  by (simp add: f64_evals round_even_def)

lemma v_ax: "f64 (4201014027406541 / 4398046511104) = 4201014027406541 / 4398046511104"
  by (simp add: f64_evals round_even_def)

lemma v_ay: "f64 (1542) = 1542"
  by (simp add: f64_evals round_even_def)

lemma v_pointX: "f64 (4301838364064297984 / 3602879701896397) = 1194"
  by (simp add: f64_evals round_even_def)

lemma v_pointY: "f64 (6944550625405304832 / 3602879701896397) = 3855 / 2"
  by (simp add: f64_evals round_even_def)

lemma v_bx: "f64 (4839568159572335121 / 4503599627370496) = 4726140780832359 / 4398046511104"
  by (simp add: f64_evals round_even_def)

lemma v_by: "f64 (31250477814323872515 / 18014398509481984) = 6939 / 4"
  by (simp add: f64_evals round_even_def)

lemma v_nextX: "f64 (- (4726140780832359 / 4398046511104)) = - (4726140780832359 / 4398046511104)"
  by (simp add: f64_evals round_even_def)

lemma v_nextY: "f64 (- (6939 / 4)) = - (6939 / 4)"
  by (simp add: f64_evals round_even_def)

lemma v_mapW1: "f64 (14745685899936478367 / 4503599627370496) = 7200041943328359 / 2199023255552"
  by (simp add: f64_evals round_even_def)

lemma v_mapH1: "f64 (39356957143590765515 / 9007199254740992) = 8739 / 2"
  by (simp add: f64_evals round_even_def)

lemma v_minX1: "f64 (- (5001018687776359 / 2199023255552)) = - (5001018687776359 / 2199023255552)"
  by (simp add: f64_evals round_even_def)

lemma v_minY1: "f64 (- (7139 / 2)) = - (7139 / 2)"
  by (simp add: f64_evals round_even_def)

lemma v_cenX1: "f64 (- (5001018687776359 / 4398046511104)) = - (5001018687776359 / 4398046511104)"
  by (simp add: f64_evals round_even_def)

lemma v_cenY1: "f64 (- (7139 / 4)) = - (7139 / 4)"
  by (simp add: f64_evals round_even_def)

lemma v_ax2: "f64 (4726140780832359 / 4398046511104) = 4726140780832359 / 4398046511104"
  by (simp add: f64_evals round_even_def)

lemma v_ay2: "f64 (6939 / 4) = 6939 / 4"
  by (simp add: f64_evals round_even_def)

lemma v_pointX2: "f64 (9679136319144671232 / 8106479329266893) = 5251267534258177 / 4398046511104"
  by (simp add: f64_evals round_even_def)

lemma v_pointY2: "f64 (15625238907161935872 / 8106479329266893) = 3855 / 2"
  by (simp add: f64_evals round_even_def)

lemmas f64_vals =
  f64_zero v_scale0 v_mapW0 v_mapH0 v_minX0 v_minY0 v_initX v_initY v_delta v_newScale v_ax v_ay v_pointX v_pointY v_bx v_by v_nextX v_nextY v_mapW1 v_mapH1 v_minX1 v_minY1 v_cenX1 v_cenY1 v_ax2 v_ay2 v_pointX2 v_pointY2

lemma v_newScale09: "f64 (9 / 10) = 8106479329266893 / 9007199254740992"
  by (simp add: f64_evals round_even_def)

lemma stateA_f64_mounted: "mountEffect_f64 (Some surfaceA) initialState_f64 = stateA_f64"
  by (simp add: mountEffect_f64_def initialState_f64_def initialState_def stateA_f64_def
      surfaceA_def clampPosition_f64_def ORIG_WIDTH_def ORIG_HEIGHT_def Let_def f64_vals)

lemma newScale_f64_A: "wheel_newScale_f64 stateA_f64 (wheelAt 0 0 (- 1)) = 8106479329266893 / 9007199254740992"
  by (simp add: wheel_newScale_f64_def stateA_f64_def wheelAt_def MIN_SCALE_def MAX_SCALE_def f64_vals)

lemma pointUnder_f64_A: "pointUnder_f64 surfaceA stateA_f64 (wheelAt 0 0 (- 1)) = \<lparr>px = 1194, py = 3855 / 2\<rparr>"
  by (simp add: pointUnder_f64_def stateA_f64_def wheelAt_def surfaceA_def f64_vals)

lemma wheel_next_f64_A:
  "wheel_next_f64 surfaceA stateA_f64 (wheelAt 0 0 (- 1)) =
     \<lparr>px = - (4726140780832359 / 4398046511104), py = - (6939 / 4)\<rparr>"
  unfolding wheel_next_f64_def pointUnder_f64_A newScale_f64_A
  by (simp add: wheelAt_def surfaceA_def f64_vals)

lemma clamp_f64_A:
  "clampPosition_f64 (Some surfaceA) (- (4726140780832359 / 4398046511104)) (- (6939 / 4))
     (8106479329266893 / 9007199254740992) =
     \<lparr>px = - (4726140780832359 / 4398046511104), py = - (6939 / 4)\<rparr>"
  by (simp add: clampPosition_f64_def surfaceA_def ORIG_WIDTH_def ORIG_HEIGHT_def Let_def f64_vals)

lemma handleWheel_f64_Some:
  "handleWheel_f64 (Some rect) s e =
     (if wheel_newScale_f64 s e = scale s then s
      else s\<lparr>scale := wheel_newScale_f64 s e,
             position := clampPosition_f64 (Some rect) (px (wheel_next_f64 rect s e))
                           (py (wheel_next_f64 rect s e)) (wheel_newScale_f64 s e)\<rparr>)"
  unfolding handleWheel_f64_def wheel_newScale_f64_def wheel_next_f64_def pointUnder_f64_def
    Let_def
  by (simp only: option.case point.select_convs)

lemma handleWheel_f64_A:
  "handleWheel_f64 (Some surfaceA) stateA_f64 (wheelAt 0 0 (- 1)) = stateZoomed_f64"
  unfolding handleWheel_f64_Some newScale_f64_A wheel_next_f64_A
  by (simp add: clamp_f64_A stateZoomed_f64_def) (simp add: stateA_f64_def)

lemma pointUnder_f64_Z:
  "pointUnder_f64 surfaceA stateZoomed_f64 (wheelAt 0 0 (- 1)) =
     \<lparr>px = 5251267534258177 / 4398046511104, py = 3855 / 2\<rparr>"
  by (simp add: pointUnder_f64_def stateZoomed_f64_def stateA_f64_def wheelAt_def surfaceA_def
      f64_vals)

text \<open>
  How far four roundings with relative error \<open>u\<close> can move the image point: \<open>b\<close>,
  \<open>nx\<close>, \<open>a'\<close> and \<open>pt'\<close> stand for the rounded product, the rounded candidate offset,
  the rounded difference and the rounded quotient.
\<close>

lemma abs_sum4: "\<bar>(w::real) + x - y + z\<bar> \<le> \<bar>w\<bar> + \<bar>x\<bar> + \<bar>y\<bar> + \<bar>z\<bar>"
  by linarith

lemma zoom_drift_bound:
  fixes u n pt b m nx a' pt' :: real
  assumes n: "0 < n" and u0: "0 \<le> u" and u8: "u \<le> 1 / 8"
    and e3: "\<bar>b - pt * n\<bar> \<le> u * \<bar>pt * n\<bar>"
    and e4: "\<bar>nx - (m - b)\<bar> \<le> u * \<bar>m - b\<bar>"
    and e5: "\<bar>a' - (m - nx)\<bar> \<le> u * \<bar>m - nx\<bar>"
    and e6: "\<bar>pt' - a' / n\<bar> \<le> u * \<bar>a' / n\<bar>"
  shows "\<bar>pt' - pt\<bar> \<le> 4 * u * (\<bar>pt\<bar> + \<bar>nx\<bar> / n)"
proof -
  define P where "P = \<bar>pt * n\<bar>"
  define Q where "Q = \<bar>m - b\<bar>"
  define R where "R = P + P / 8 + Q / 8"
  have P0: "0 \<le> P" and Q0: "0 \<le> Q"
    by (simp_all add: P_def Q_def)
  have uP: "u * P \<le> P / 8"
    using mult_right_mono [OF u8 P0] by simp
  have uQ: "u * Q \<le> Q / 8"
    using mult_right_mono [OF u8 Q0] by simp
  have d3: "\<bar>b - pt * n\<bar> \<le> u * P"
    using e3 by (simp add: P_def)
  have d4: "\<bar>nx - (m - b)\<bar> \<le> u * Q"
    using e4 by (simp add: Q_def)
  have mn: "\<bar>m - nx\<bar> \<le> R"
    using d3 d4 uP uQ unfolding R_def P_def Q_def by linarith
  have R0: "0 \<le> R"
    using mn by linarith
  have uR: "u * R \<le> R / 8"
    using mult_right_mono [OF u8 R0] by simp
  have d5: "\<bar>a' - (m - nx)\<bar> \<le> u * R"
    using e5 mult_left_mono [OF mn u0] by linarith
  have a: "\<bar>a'\<bar> \<le> 9 / 8 * R"
    using d5 mn uR by linarith
  have "n * \<bar>pt' - a' / n\<bar> \<le> n * (u * \<bar>a' / n\<bar>)"
    using e6 n by (intro mult_left_mono) simp_all
  also have "\<dots> = u * \<bar>a'\<bar>"
    using n by (simp add: abs_divide)
  also have "\<dots> \<le> u * (9 / 8 * R)"
    using a u0 by (rule mult_left_mono)
  finally have d6: "n * \<bar>pt' - a' / n\<bar> \<le> u * (9 / 8 * R)" .
  have "Q \<le> \<bar>nx\<bar> + \<bar>nx - (m - b)\<bar>"
    unfolding Q_def by linarith
  with d4 uQ have Qn: "Q \<le> 8 / 7 * \<bar>nx\<bar>"
    by linarith
  have "n * (pt' - pt) = n * (pt' - a' / n) + (a' - (m - nx)) - (nx - (m - b)) + (b - pt * n)"
    using n by (simp add: algebra_simps)
  then have "\<bar>n * (pt' - pt)\<bar> \<le>
      \<bar>n * (pt' - a' / n)\<bar> + \<bar>a' - (m - nx)\<bar> + \<bar>nx - (m - b)\<bar> + \<bar>b - pt * n\<bar>"
    by (simp only: abs_sum4)
  also have "\<bar>n * (pt' - a' / n)\<bar> = n * \<bar>pt' - a' / n\<bar>"
    using n by (simp add: abs_mult)
  finally have "\<bar>n * (pt' - pt)\<bar> \<le> u * (9 / 8 * R) + u * R + u * Q + u * P"
    using d6 d5 d4 d3 by linarith
  also have "\<dots> = u * (17 / 8 * R + Q + P)"
    by (simp add: algebra_simps)
  also have "\<dots> \<le> u * (4 * (P + \<bar>nx\<bar>))"
    using u0
  proof (rule mult_left_mono [rotated])
    have "0 \<le> \<bar>nx\<bar>" by simp
    with Qn P0 Q0 show "17 / 8 * R + Q + P \<le> 4 * (P + \<bar>nx\<bar>)"
      unfolding R_def by argo
  qed
  finally have fin: "\<bar>n * (pt' - pt)\<bar> \<le> u * (4 * (P + \<bar>nx\<bar>))" .
  have l: "\<bar>n * (pt' - pt)\<bar> = \<bar>pt' - pt\<bar> * n"
    using n by (simp add: abs_mult)
  have r: "u * (4 * (P + \<bar>nx\<bar>)) = 4 * u * (\<bar>pt\<bar> + \<bar>nx\<bar> / n) * n"
    using n by (simp add: P_def abs_mult field_simps)
  from fin have "\<bar>pt' - pt\<bar> * n \<le> 4 * u * (\<bar>pt\<bar> + \<bar>nx\<bar> / n) * n"
    unfolding l r .
  then show ?thesis
    using n by (rule mult_right_le_imp_le)
qed

lemma wheel_newScale_f64_bounds:
  "MIN_SCALE \<le> wheel_newScale_f64 s e \<and> wheel_newScale_f64 s e \<le> MAX_SCALE"
  by (simp add: wheel_newScale_f64_def MIN_SCALE_def MAX_SCALE_def min_def max_def)

lemma wheel_newScale_f64_pos: "0 < wheel_newScale_f64 s e"
  using wheel_newScale_f64_bounds [of s e] by (simp add: MIN_SCALE_def)

lemma f64_rel_error: "\<bar>f64 x - x\<bar> \<le> 1 / 2 ^ 53 * \<bar>x\<bar>"
  using f64_error [of x] by simp

lemma f64_zoom_axis:
  assumes n: "0 < n"
  shows "\<bar>f64 (f64 (m - f64 (m - f64 (pt * n))) / n) - pt\<bar>
           \<le> (\<bar>pt\<bar> + \<bar>f64 (m - f64 (pt * n))\<bar> / n) / 2 ^ 51"
proof -
  have "\<bar>f64 (f64 (m - f64 (m - f64 (pt * n))) / n) - pt\<bar>
          \<le> 4 * (1 / 2 ^ 53) * (\<bar>pt\<bar> + \<bar>f64 (m - f64 (pt * n))\<bar> / n)"
    by (rule zoom_drift_bound [OF n, where b = "f64 (pt * n)" and m = m
          and a' = "f64 (m - f64 (m - f64 (pt * n)))"])
      (simp_all only: f64_rel_error, simp_all)
  then show ?thesis by simp
qed

text \<open>
  Against claim C1 as stated: in the state that the mount effect leaves in
  \<^const>\<open>surfaceA\<close>, zooming in with the pointer at (0, 0) changes the scale from the double
  0.8 to the double 0.9, the clamp returns the candidate offset as it is, and the image
  point under the pointer moves on the x axis from 1194 to the next double above it,
  \<open>1194 + 2\<^sup>-\<^sup>4\<^sup>2\<close>, which JavaScript prints as 1194.0000000000002.
\<close>

theorem zoom_point_drifts_f64:
  "scale (mountEffect_f64 (Some surfaceA) initialState_f64) = f64 0.8 \<and>
   wheel_newScale_f64 (mountEffect_f64 (Some surfaceA) initialState_f64) (wheelAt 0 0 (- 1))
     = f64 0.9 \<and>
   clampPosition_f64 (Some surfaceA)
     (px (wheel_next_f64 surfaceA (mountEffect_f64 (Some surfaceA) initialState_f64) (wheelAt 0 0 (- 1))))
     (py (wheel_next_f64 surfaceA (mountEffect_f64 (Some surfaceA) initialState_f64) (wheelAt 0 0 (- 1))))
     (wheel_newScale_f64 (mountEffect_f64 (Some surfaceA) initialState_f64) (wheelAt 0 0 (- 1)))
     = wheel_next_f64 surfaceA (mountEffect_f64 (Some surfaceA) initialState_f64) (wheelAt 0 0 (- 1)) \<and>
   px (pointUnder_f64 surfaceA (mountEffect_f64 (Some surfaceA) initialState_f64) (wheelAt 0 0 (- 1)))
     = 1194 \<and>
   px (pointUnder_f64 surfaceA
         (handleWheel_f64 (Some surfaceA) (mountEffect_f64 (Some surfaceA) initialState_f64)
            (wheelAt 0 0 (- 1)))
         (wheelAt 0 0 (- 1)))
     = 1194 + 1 / 2 ^ 42"
  unfolding stateA_f64_mounted handleWheel_f64_A pointUnder_f64_A pointUnder_f64_Z
    wheel_next_f64_A newScale_f64_A
  by (simp add: clamp_f64_A v_scale0 v_newScale09) (simp add: stateA_f64_def)

text \<open>
  Claim C1, amended. For a zoom that changes the scale and whose candidate offset the
  clamp leaves as it is, the committed offset is the pointer position minus the image
  point times the new scale as the component computes them, every operation rounded to
  a double. The image point computed from the pointer position after the zoom need not
  be the one computed before it: on each axis the two differ by at most
  \<open>2\<^sup>-\<^sup>5\<^sup>1\<close> times the sum of the magnitude of the image point and the magnitude of
  the new offset divided by the new scale. The scale of the old state is not zero, as
  in every state of a run.
\<close>

theorem zoom_to_cursor_f64:
  assumes "scale s \<noteq> 0"
    and "wheel_newScale_f64 s e \<noteq> scale s"
    and "clampPosition_f64 (Some rect) (px (wheel_next_f64 rect s e)) (py (wheel_next_f64 rect s e))
           (wheel_newScale_f64 s e) = wheel_next_f64 rect s e"
  shows "position (handleWheel_f64 (Some rect) s e) = wheel_next_f64 rect s e \<and>
         \<bar>px (pointUnder_f64 rect (handleWheel_f64 (Some rect) s e) e) - px (pointUnder_f64 rect s e)\<bar>
           \<le> (\<bar>px (pointUnder_f64 rect s e)\<bar>
                + \<bar>px (wheel_next_f64 rect s e)\<bar> / wheel_newScale_f64 s e) / 2 ^ 51 \<and>
         \<bar>py (pointUnder_f64 rect (handleWheel_f64 (Some rect) s e) e) - py (pointUnder_f64 rect s e)\<bar>
           \<le> (\<bar>py (pointUnder_f64 rect s e)\<bar>
                + \<bar>py (wheel_next_f64 rect s e)\<bar> / wheel_newScale_f64 s e) / 2 ^ 51"
proof -
  let ?n = "wheel_newScale_f64 s e"
  let ?s' = "handleWheel_f64 (Some rect) s e"
  from assms(2,3) have pos: "position ?s' = wheel_next_f64 rect s e"
    by (simp add: handleWheel_f64_Some)
  from assms(2) have sc: "scale ?s' = ?n"
    by (simp add: handleWheel_f64_Some)
  have x: "px (pointUnder_f64 rect ?s' e) =
      f64 (f64 (f64 (clientX e - rect_left rect) - px (wheel_next_f64 rect s e)) / ?n)"
    by (simp add: pointUnder_f64_def pos sc)
  have y: "py (pointUnder_f64 rect ?s' e) =
      f64 (f64 (f64 (clientY e - rect_top rect) - py (wheel_next_f64 rect s e)) / ?n)"
    by (simp add: pointUnder_f64_def pos sc)
  have nx: "px (wheel_next_f64 rect s e) =
      f64 (f64 (clientX e - rect_left rect) - f64 (px (pointUnder_f64 rect s e) * ?n))"
    and ny: "py (wheel_next_f64 rect s e) =
      f64 (f64 (clientY e - rect_top rect) - f64 (py (pointUnder_f64 rect s e) * ?n))"
    by (simp_all add: wheel_next_f64_def)
  show ?thesis
    unfolding x y unfolding nx ny
    using pos f64_zoom_axis [OF wheel_newScale_f64_pos [of s e]] by (simp add: nx ny)
qed

theorem zoom_to_cursor_f64_witness:
  "scale stateA_f64 \<noteq> 0 \<and>
   wheel_newScale_f64 stateA_f64 (wheelAt 0 0 (- 1)) \<noteq> scale stateA_f64 \<and>
   clampPosition_f64 (Some surfaceA)
     (px (wheel_next_f64 surfaceA stateA_f64 (wheelAt 0 0 (- 1))))
     (py (wheel_next_f64 surfaceA stateA_f64 (wheelAt 0 0 (- 1))))
     (wheel_newScale_f64 stateA_f64 (wheelAt 0 0 (- 1)))
     = wheel_next_f64 surfaceA stateA_f64 (wheelAt 0 0 (- 1)) \<and>
   position (handleWheel_f64 (Some surfaceA) stateA_f64 (wheelAt 0 0 (- 1)))
     = wheel_next_f64 surfaceA stateA_f64 (wheelAt 0 0 (- 1)) \<and>
   \<bar>px (pointUnder_f64 surfaceA (handleWheel_f64 (Some surfaceA) stateA_f64 (wheelAt 0 0 (- 1)))
          (wheelAt 0 0 (- 1)))
      - px (pointUnder_f64 surfaceA stateA_f64 (wheelAt 0 0 (- 1)))\<bar>
     \<le> (\<bar>px (pointUnder_f64 surfaceA stateA_f64 (wheelAt 0 0 (- 1)))\<bar>
          + \<bar>px (wheel_next_f64 surfaceA stateA_f64 (wheelAt 0 0 (- 1)))\<bar>
            / wheel_newScale_f64 stateA_f64 (wheelAt 0 0 (- 1))) / 2 ^ 51"
proof -
  let ?e = "wheelAt 0 0 (- 1)"
  have h1: "scale stateA_f64 \<noteq> 0"
    by (simp add: stateA_f64_def)
  have h2: "wheel_newScale_f64 stateA_f64 ?e \<noteq> scale stateA_f64"
    unfolding newScale_f64_A by (simp add: stateA_f64_def)
  have h3: "clampPosition_f64 (Some surfaceA) (px (wheel_next_f64 surfaceA stateA_f64 ?e))
      (py (wheel_next_f64 surfaceA stateA_f64 ?e)) (wheel_newScale_f64 stateA_f64 ?e)
      = wheel_next_f64 surfaceA stateA_f64 ?e"
    unfolding wheel_next_f64_A newScale_f64_A by (simp add: clamp_f64_A)
  from zoom_to_cursor_f64 [OF h1 h2 h3] h1 h2 h3 show ?thesis
    by blast
qed

text \<open>
  Claim C4. A wheel event whose new scale, after the clamp to the range from
  \<^const>\<open>MIN_SCALE\<close> to \<^const>\<open>MAX_SCALE\<close>, is the current scale leaves the whole state as
  it is. Zooming in at \<^const>\<open>MAX_SCALE\<close> and zooming out at \<^const>\<open>MIN_SCALE\<close> are such
  events.
\<close>

theorem zoom_noop_at_bounds:
  "(wheel_newScale s e = scale s \<longrightarrow> handleWheel container s e = s) \<and>
   (scale s = MAX_SCALE \<and> \<not> deltaY e > 0 \<longrightarrow> handleWheel container s e = s) \<and>
   (scale s = MIN_SCALE \<and> deltaY e > 0 \<longrightarrow> handleWheel container s e = s)"
proof (intro conjI impI)
  assume "wheel_newScale s e = scale s"
  then show "handleWheel container s e = s"
    by (rule handleWheel_noop)
next
  assume "scale s = MAX_SCALE \<and> \<not> deltaY e > 0"
  then have "wheel_newScale s e = scale s"
    by (simp add: wheel_newScale_def MIN_SCALE_def MAX_SCALE_def)
  then show "handleWheel container s e = s"
    by (rule handleWheel_noop)
next
  assume "scale s = MIN_SCALE \<and> deltaY e > 0"
  then have "wheel_newScale s e = scale s"
    by (simp add: wheel_newScale_def MIN_SCALE_def MAX_SCALE_def)
  then show "handleWheel container s e = s"
    by (rule handleWheel_noop)
qed

theorem zoom_noop_at_bounds_witness:
  "scale (stateA\<lparr>scale := MAX_SCALE\<rparr>) = MAX_SCALE \<and>
   \<not> deltaY (wheelAt 500 400 (- 1)) > 0 \<and>
   wheel_newScale (stateA\<lparr>scale := MAX_SCALE\<rparr>) (wheelAt 500 400 (- 1)) = MAX_SCALE \<and>
   handleWheel (Some surfaceA) (stateA\<lparr>scale := MAX_SCALE\<rparr>) (wheelAt 500 400 (- 1))
     = stateA\<lparr>scale := MAX_SCALE\<rparr> \<and>
   scale (stateA\<lparr>scale := MIN_SCALE\<rparr>) = MIN_SCALE \<and>
   deltaY (wheelAt 500 400 1) > 0 \<and>
   wheel_newScale (stateA\<lparr>scale := MIN_SCALE\<rparr>) (wheelAt 500 400 1) = MIN_SCALE \<and>
   handleWheel (Some surfaceA) (stateA\<lparr>scale := MIN_SCALE\<rparr>) (wheelAt 500 400 1)
     = stateA\<lparr>scale := MIN_SCALE\<rparr>"
  using zoom_noop_at_bounds [of "stateA\<lparr>scale := MAX_SCALE\<rparr>" "wheelAt 500 400 (- 1)" "Some surfaceA"]
    zoom_noop_at_bounds [of "stateA\<lparr>scale := MIN_SCALE\<rparr>" "wheelAt 500 400 1" "Some surfaceA"]
  by (simp add: wheel_newScale_def wheelAt_def MIN_SCALE_def MAX_SCALE_def)

subsection \<open>Pointer moves\<close>

lemma handleMouseMove_None: "handleMouseMove None s e = s"
  by (simp add: handleMouseMove_def)

lemma handleMouseMove_Some:
  "handleMouseMove (Some rect) s e =
     (if \<not> isDragging s
      then s\<lparr>mouseCoords := spec_report (localPos rect e) (position s) (scale s)\<rparr>
      else s\<lparr>mouseCoords := spec_report (localPos rect e) (position s) (scale s),
             position := clampPosition (Some rect) (px (drag_next s e)) (py (drag_next s e)) (scale s)\<rparr>)"
proof -
  have w: "(0::real) \<le> ORIG_WIDTH" and h: "(0::real) \<le> ORIG_HEIGHT"
    by (simp_all add: ORIG_WIDTH_def ORIG_HEIGHT_def)
  show ?thesis
    unfolding handleMouseMove_def spec_report_def drag_next_def localPos_def Let_def
      min_max_clamp_into [OF w] min_max_clamp_into [OF h]
    by (simp only: option.case point.select_convs if_not_P if_P split: if_split)
qed


lemma handleMouseMove_mouseCoords:
  "mouseCoords (handleMouseMove (Some rect) s e) =
     spec_report (localPos rect e) (position s) (scale s)"
  by (simp add: handleMouseMove_Some)

lemma spec_report_stateA:
  "spec_report (localPos surfaceA (mouseAt 500 400 b)) (position stateA) (scale stateA) =
     \<lparr>px = 1819, py = 2428\<rparr>"
  by (simp add: spec_report_def localPos_def surfaceA_def mouseAt_def stateA_def
      Math_round_def clamp_into_def ORIG_WIDTH_def ORIG_HEIGHT_def)

text \<open>
  Claim C5. A pointer move over a container with a bounding rectangle publishes, for x,
  the rounded quotient of the local pointer position minus the offset by the scale,
  clamped to the range from 0 to the image width, and for y the rounded image height
  minus that quotient, clamped to the range from 0 to the image height. In the state
  with scale 0.8 and offset (-955.2, -1542), a pointer at (500, 400) is reported as
  (1819, 2428).
\<close>

theorem pointer_report:
  "(scale s \<noteq> 0 \<longrightarrow>
      mouseCoords (handleMouseMove (Some rect) s e) =
        spec_report (localPos rect e) (position s) (scale s)) \<and>
   mouseCoords (handleMouseMove (Some surfaceA) stateA (mouseAt 500 400 b)) =
     \<lparr>px = 1819, py = 2428\<rparr>"
proof
  show "scale s \<noteq> 0 \<longrightarrow>
      mouseCoords (handleMouseMove (Some rect) s e) =
        spec_report (localPos rect e) (position s) (scale s)"
    by (simp add: handleMouseMove_mouseCoords)
  from spec_report_stateA [of b] show "mouseCoords (handleMouseMove (Some surfaceA) stateA (mouseAt 500 400 b)) =
     \<lparr>px = 1819, py = 2428\<rparr>"
    by (simp add: handleMouseMove_mouseCoords)
qed

theorem pointer_report_witness:
  "scale stateA \<noteq> 0 \<and>
   mouseCoords (handleMouseMove (Some surfaceA) stateA (mouseAt 500 400 0)) =
     spec_report (localPos surfaceA (mouseAt 500 400 0)) (position stateA) (scale stateA) \<and>
   mouseCoords (handleMouseMove (Some surfaceA) stateA (mouseAt 500 400 0)) =
     \<lparr>px = 1819, py = 2428\<rparr>"
proof -
  have sc: "scale stateA \<noteq> 0"
    by (simp add: stateA_def)
  from pointer_report [of stateA surfaceA "mouseAt 500 400 0" 0] sc show ?thesis
    by blast
qed

text \<open>
  Claim C8. A pointer move in a state that is not dragging leaves the scale, the offset
  and the drag state as they are, so only the coordinate report can change; a
  pointer-down whose button is not the primary one leaves the whole state as it is.
\<close>

theorem idle_move_nonprimary_down:
  "(\<not> isDragging s \<longrightarrow>
      scale (handleMouseMove container s e) = scale s \<and>
      position (handleMouseMove container s e) = position s \<and>
      isDragging (handleMouseMove container s e) = isDragging s \<and>
      dragStart (handleMouseMove container s e) = dragStart s) \<and>
   (button e' \<noteq> 0 \<longrightarrow> handleMouseDown s e' = s)"
  by (cases container)
    (simp_all add: handleMouseMove_None handleMouseMove_Some handleMouseDown_def)

theorem idle_move_nonprimary_down_witness:
  "\<not> isDragging stateA \<and>
   handleMouseMove (Some surfaceA) stateA (mouseAt 500 400 0) =
     stateA\<lparr>mouseCoords := \<lparr>px = 1819, py = 2428\<rparr>\<rparr> \<and>
   button (mouseAt 500 400 2) \<noteq> 0 \<and>
   handleMouseDown stateA (mouseAt 500 400 2) = stateA"
proof -
  have idle: "\<not> isDragging stateA"
    by (simp add: stateA_def)
  have mv: "handleMouseMove (Some surfaceA) stateA (mouseAt 500 400 0) =
     stateA\<lparr>mouseCoords := \<lparr>px = 1819, py = 2428\<rparr>\<rparr>"
    using idle by (simp add: handleMouseMove_Some spec_report_stateA)
  from idle_move_nonprimary_down [of stateA "Some surfaceA" "mouseAt 500 400 0" "mouseAt 500 400 2"]
    idle mv show ?thesis
    by (simp add: mouseAt_def)
qed

subsection \<open>A drag in the mounted state\<close>

lemma stateDown_eq: "stateDown = stateA\<lparr>isDragging := True, dragStart := \<lparr>px = 1455.2, py = 1942\<rparr>\<rparr>"
  by (simp add: stateDown_def stateA_mounted handleMouseDown_def) (simp add: stateA_def)

lemma stateDragged_eq:
  "stateDragged = stateA\<lparr>isDragging := True, dragStart := \<lparr>px = 1455.2, py = 1942\<rparr>,
     mouseCoords := \<lparr>px = 1844, py = 2453\<rparr>, position := \<lparr>px = - 935.2, py = - 1562\<rparr>\<rparr>"
  unfolding stateDragged_def stateDown_eq
  by (simp add: handleMouseMove_Some)
   (simp add: stateA_def spec_report_def localPos_def surfaceA_def drag_next_def
      Math_round_def clamp_into_def ORIG_WIDTH_def ORIG_HEIGHT_def clampPosition_def Let_def)

lemma drag_pointUnder:
  assumes "scale s \<noteq> 0"
  shows "imagePoint (localPos rect e) (drag_next s e) (scale s) =
     \<lparr>px = (px (dragStart s) - rect_left rect) / scale s,
      py = (py (dragStart s) - rect_top rect) / scale s\<rparr>"
  by (simp add: imagePoint_def localPos_def drag_next_def)

lemma stateDown_facts:
  "isDragging stateDown" "scale stateDown = 0.8"
  "position stateDown = \<lparr>px = - 955.2, py = - 1542\<rparr>"
  "dragStart stateDown = \<lparr>px = 1455.2, py = 1942\<rparr>"
  by (simp_all add: stateDown_eq stateA_def)

lemma stateDragged_facts:
  "scale stateDragged = 0.8"
  "position stateDragged = \<lparr>px = - 935.2, py = - 1562\<rparr>"
  "mouseCoords stateDragged = \<lparr>px = 1844, py = 2453\<rparr>"
  by (simp_all add: stateDragged_eq stateA_def)

lemma drag_example:
  "spec_report (localPos surfaceA (mouseAt 520 380 0)) (position stateDown) (scale stateDown)
     = \<lparr>px = 1844, py = 2453\<rparr>"
  "spec_report (localPos surfaceA (mouseAt 520 380 0)) (position stateDragged) (scale stateDragged)
     = \<lparr>px = 1819, py = 2428\<rparr>"
  "pointUnder surfaceA stateDown (mouseAt 500 400 0) = \<lparr>px = 1819, py = 2427.5\<rparr>"
  "pointUnder surfaceA stateDragged (mouseAt 520 380 0) = \<lparr>px = 1819, py = 2427.5\<rparr>"
  unfolding stateDown_facts stateDragged_facts pointUnder_def
  by (simp_all add: spec_report_def imagePoint_def localPos_def surfaceA_def mouseAt_def
      Math_round_def clamp_into_def ORIG_WIDTH_def ORIG_HEIGHT_def)

subsection \<open>The image-load event\<close>

lemma onLoad_None: "onLoad None s = s"
  by (simp add: onLoad_def clampPosition_None)

lemma mountEffect_None: "mountEffect None s = s"
  by (simp add: mountEffect_def)





subsection \<open>A container that is absent or of size zero\<close>

lemma handleWheel_scale: "scale (handleWheel (Some rect) s e) = wheel_newScale s e"
  by (simp add: handleWheel_Some)

text \<open>
  Against claim C7 as stated: with a container of size zero the mount effect is not
  deferred. It moves the offset of the first render from (0, 0) to (-1455.2, -1942),
  and a wheel event in that state changes the scale from 0.8 to 0.9.
\<close>

theorem zero_size_not_deferred:
  "position initialState = \<lparr>px = 0, py = 0\<rparr> \<and>
   position (mountEffect (Some surfaceZero) initialState) = \<lparr>px = - 1455.2, py = - 1942\<rparr> \<and>
   mountEffect (Some surfaceZero) initialState \<noteq> initialState \<and>
   scale (mountEffect (Some surfaceZero) initialState) = 0.8 \<and>
   scale (handleWheel (Some surfaceZero) (mountEffect (Some surfaceZero) initialState)
            (wheelAt 0 0 (- 1))) = 0.9"
proof -
  have p0: "position initialState = \<lparr>px = 0, py = 0\<rparr>"
    by (simp add: initialState_def)
  have m: "mountEffect (Some surfaceZero) initialState = stateZero"
    by (simp add: mountEffect_def surfaceZero_def initialState_def stateZero_def Let_def
      clampPosition_def ORIG_WIDTH_def ORIG_HEIGHT_def)
  have n: "wheel_newScale stateZero (wheelAt 0 0 (- 1)) = 0.9"
    by (simp add: wheel_newScale_def stateZero_def initialState_def wheelAt_def
      MIN_SCALE_def MAX_SCALE_def)
  have pz: "position stateZero = \<lparr>px = - 1455.2, py = - 1942\<rparr>"
    by (simp add: stateZero_def)
  have sz: "scale stateZero = 0.8"
    by (simp add: stateZero_def initialState_def)
  have ne: "stateZero \<noteq> initialState"
  proof
    assume "stateZero = initialState"
    then have "position stateZero = position initialState"
      by simp
    then show False by (simp add: pz p0)
  qed
  show ?thesis
    unfolding handleWheel_scale m n pz sz p0 using ne by simp
qed

text \<open>
  Claim C7, amended. When the container reference is absent, a wheel event, a pointer
  move, the mount effect and the image-load event leave the state as it is. A container
  of size zero is not a special case of any operation.
\<close>

theorem absent_container_noop:
  "handleWheel None s we = s \<and> handleMouseMove None s me = s \<and>
   mountEffect None s = s \<and> onLoad None s = s"
  by (simp add: handleWheel_None handleMouseMove_None mountEffect_None onLoad_None)

text \<open>
  Against claim C9 as stated: with the container reference absent, a pointer move of a
  drag whose candidate offset is (10, 10), which the clamp would return as it is, does
  not commit that candidate; the offset stays (0, 0), because \<^const>\<open>handleMouseMove\<close>
  returns before it calls the clamp.
\<close>

theorem absent_container_caller_guard:
  "isDragging (handleMouseDown initialState (mouseAt 0 0 0)) \<and>
   drag_next (handleMouseDown initialState (mouseAt 0 0 0)) (mouseAt 10 10 0) = \<lparr>px = 10, py = 10\<rparr> \<and>
   clampPosition None 10 10 (scale (handleMouseDown initialState (mouseAt 0 0 0))) = \<lparr>px = 10, py = 10\<rparr> \<and>
   position (handleMouseMove None (handleMouseDown initialState (mouseAt 0 0 0)) (mouseAt 10 10 0))
     = \<lparr>px = 0, py = 0\<rparr>"
  by (simp add: handleMouseMove_None clampPosition_None)
    (simp add: handleMouseDown_def mouseAt_def initialState_def drag_next_def)

text \<open>
  Claim C9, amended. When the container reference is absent, \<^const>\<open>clampPosition\<close>
  returns the candidate offset as it is. No caller commits another offset than the
  current one in that situation: \<^const>\<open>onLoad\<close> passes the current offset as the
  candidate, and \<^const>\<open>handleWheel\<close>, \<^const>\<open>handleMouseMove\<close> and the mount effect
  return before the clamp is called.
\<close>

theorem absent_container_clamp_identity:
  "clampPosition None newX newY sc = \<lparr>px = newX, py = newY\<rparr> \<and>
   position (onLoad None s) = position s \<and>
   position (handleWheel None s we) = position s \<and>
   position (handleMouseMove None s me) = position s \<and>
   position (mountEffect None s) = position s"
  by (simp add: clampPosition_None handleWheel_None handleMouseMove_None mountEffect_None
      onLoad_None)

subsection \<open>The coordinate report during a drag\<close>

text \<open>
  Claim C10. A pointer move while dragging publishes the report computed from the new
  pointer position and the offset of the state before the move, not the offset that the
  same move commits. When the clamp leaves the candidate of the pan as it is, the image
  point under the pointer after the move is the point of the drag anchor, whatever the
  pointer position. In the drag from (500, 400) to (520, 380) the image point under the
  pointer stays (1819, 2427.5), yet the move reports (1844, 2453), and a further move
  event at the same pointer position reports (1819, 2428).
\<close>

theorem drag_report_stale:
  "(isDragging s \<and> scale s \<noteq> 0 \<longrightarrow>
      mouseCoords (handleMouseMove (Some rect) s e) =
        spec_report (localPos rect e) (position s) (scale s) \<and>
      (clampPosition (Some rect) (px (drag_next s e)) (py (drag_next s e)) (scale s) = drag_next s e
         \<longrightarrow>
       position (handleMouseMove (Some rect) s e) = drag_next s e \<and>
       pointUnder rect (handleMouseMove (Some rect) s e) e =
         \<lparr>px = (px (dragStart s) - rect_left rect) / scale s,
          py = (py (dragStart s) - rect_top rect) / scale s\<rparr>)) \<and>
   mouseCoords stateDragged = \<lparr>px = 1844, py = 2453\<rparr> \<and>
   spec_report (localPos surfaceA (mouseAt 520 380 0)) (position stateDown) (scale stateDown)
     = \<lparr>px = 1844, py = 2453\<rparr> \<and>
   spec_report (localPos surfaceA (mouseAt 520 380 0)) (position stateDragged) (scale stateDragged)
     = \<lparr>px = 1819, py = 2428\<rparr> \<and>
   pointUnder surfaceA stateDown (mouseAt 500 400 0) = \<lparr>px = 1819, py = 2427.5\<rparr> \<and>
   pointUnder surfaceA stateDragged (mouseAt 520 380 0) = \<lparr>px = 1819, py = 2427.5\<rparr> \<and>
   mouseCoords (handleMouseMove (Some surfaceA) stateDragged (mouseAt 520 380 0))
     = \<lparr>px = 1819, py = 2428\<rparr>"
proof (intro conjI impI)
  assume a: "isDragging s \<and> scale s \<noteq> 0"
  show "mouseCoords (handleMouseMove (Some rect) s e) =
        spec_report (localPos rect e) (position s) (scale s)"
    by (rule handleMouseMove_mouseCoords)
  assume b: "clampPosition (Some rect) (px (drag_next s e)) (py (drag_next s e)) (scale s) = drag_next s e"
  from a b show pos: "position (handleMouseMove (Some rect) s e) = drag_next s e"
    by (simp add: handleMouseMove_Some)
  from a have sc: "scale (handleMouseMove (Some rect) s e) = scale s"
    by (simp add: handleMouseMove_Some)
  from a show "pointUnder rect (handleMouseMove (Some rect) s e) e =
         \<lparr>px = (px (dragStart s) - rect_left rect) / scale s,
          py = (py (dragStart s) - rect_top rect) / scale s\<rparr>"
    unfolding pointUnder_def pos sc by (simp add: drag_pointUnder)
next
  show "mouseCoords (handleMouseMove (Some surfaceA) stateDragged (mouseAt 520 380 0))
     = \<lparr>px = 1819, py = 2428\<rparr>"
    unfolding handleMouseMove_mouseCoords by (rule drag_example)
qed (rule drag_example stateDragged_facts(3))+

theorem drag_report_stale_witness:
  "isDragging stateDown \<and> scale stateDown \<noteq> 0 \<and>
   drag_next stateDown (mouseAt 520 380 0) = \<lparr>px = - 935.2, py = - 1562\<rparr> \<and>
   clampPosition (Some surfaceA) (- 935.2) (- 1562) (scale stateDown) = \<lparr>px = - 935.2, py = - 1562\<rparr> \<and>
   position stateDown = \<lparr>px = - 955.2, py = - 1542\<rparr> \<and>
   mouseCoords (handleMouseMove (Some surfaceA) stateDown (mouseAt 520 380 0)) =
     spec_report (localPos surfaceA (mouseAt 520 380 0)) \<lparr>px = - 955.2, py = - 1542\<rparr> (scale stateDown) \<and>
   position (handleMouseMove (Some surfaceA) stateDown (mouseAt 520 380 0)) = \<lparr>px = - 935.2, py = - 1562\<rparr>"
proof -
  let ?e = "mouseAt 520 380 0"
  have d: "isDragging stateDown" and sc: "scale stateDown \<noteq> 0"
    by (simp_all add: stateDown_facts)
  have nx: "drag_next stateDown ?e = \<lparr>px = - 935.2, py = - 1562\<rparr>"
    by (simp add: drag_next_def stateDown_facts mouseAt_def)
  have cl: "clampPosition (Some surfaceA) (- 935.2) (- 1562) (scale stateDown) = \<lparr>px = - 935.2, py = - 1562\<rparr>"
    by (simp add: stateDown_facts clampPosition_def surfaceA_def ORIG_WIDTH_def ORIG_HEIGHT_def Let_def)
  have hyp: "clampPosition (Some surfaceA) (px (drag_next stateDown ?e)) (py (drag_next stateDown ?e))
      (scale stateDown) = drag_next stateDown ?e"
    using cl by (simp add: nx)
  from drag_report_stale [of stateDown surfaceA ?e] d sc hyp
  have "mouseCoords (handleMouseMove (Some surfaceA) stateDown ?e) =
        spec_report (localPos surfaceA ?e) (position stateDown) (scale stateDown)"
    and "position (handleMouseMove (Some surfaceA) stateDown ?e) = drag_next stateDown ?e"
    by blast+
  with d sc cl show ?thesis
    by (simp add: nx stateDown_facts(3))
qed

subsection \<open>The invariant of the state\<close>












end
